theory Spec2Isabelle
  imports Main "HOL-Library.AList"
begin

section \<open>Python strings\<close>

text \<open>
  A Python \<open>str\<close> is a sequence of Unicode code points, and \<open>len\<close>, slicing,
  \<open>startswith\<close> and \<open>==\<close> work on code points. A string is therefore modelled as the
  list of its code points; \<open>lit\<close> turns a literal of the source into such a list.
\<close>

type_synonym str = "nat list"

definition lit :: "string \<Rightarrow> str" where
  "lit cs = map of_char cs"

text \<open>
  The pattern \<open>\D\<close> of \<open>re\<close>, applied to a \<open>str\<close>, matches every character that is
  not a Unicode decimal digit (general category Nd); \<open>\d\<close> matches the decimal digits,
  \<open>0\<close> to \<open>9\<close> among them. The table holds the first and last code point of each run
  of decimal digits (Unicode 14.0.0); later versions only add runs.
\<close>

definition Nd_ranges :: "(nat \<times> nat) list" where
  "Nd_ranges =
    [(0x30, 0x39), (0x660, 0x669), (0x6F0, 0x6F9), (0x7C0, 0x7C9), (0x966, 0x96F),
     (0x9E6, 0x9EF), (0xA66, 0xA6F), (0xAE6, 0xAEF), (0xB66, 0xB6F), (0xBE6, 0xBEF),
     (0xC66, 0xC6F), (0xCE6, 0xCEF), (0xD66, 0xD6F), (0xDE6, 0xDEF), (0xE50, 0xE59),
     (0xED0, 0xED9), (0xF20, 0xF29), (0x1040, 0x1049), (0x1090, 0x1099),
     (0x17E0, 0x17E9), (0x1810, 0x1819), (0x1946, 0x194F), (0x19D0, 0x19D9),
     (0x1A80, 0x1A89), (0x1A90, 0x1A99), (0x1B50, 0x1B59), (0x1BB0, 0x1BB9),
     (0x1C40, 0x1C49), (0x1C50, 0x1C59), (0xA620, 0xA629), (0xA8D0, 0xA8D9),
     (0xA900, 0xA909), (0xA9D0, 0xA9D9), (0xA9F0, 0xA9F9), (0xAA50, 0xAA59),
     (0xABF0, 0xABF9), (0xFF10, 0xFF19), (0x104A0, 0x104A9), (0x10D30, 0x10D39),
     (0x11066, 0x1106F), (0x110F0, 0x110F9), (0x11136, 0x1113F), (0x111D0, 0x111D9),
     (0x112F0, 0x112F9), (0x11450, 0x11459), (0x114D0, 0x114D9), (0x11650, 0x11659),
     (0x116C0, 0x116C9), (0x11730, 0x11739), (0x118E0, 0x118E9), (0x11950, 0x11959),
     (0x11C50, 0x11C59), (0x11D50, 0x11D59), (0x11DA0, 0x11DA9), (0x16A60, 0x16A69),
     (0x16AC0, 0x16AC9), (0x16B50, 0x16B59), (0x1D7CE, 0x1D7FF), (0x1E140, 0x1E149),
     (0x1E2F0, 0x1E2F9), (0x1E950, 0x1E959), (0x1FBF0, 0x1FBF9)]"

definition is_decimal :: "nat \<Rightarrow> bool" where
  "is_decimal c = list_ex (\<lambda>(lo, hi). lo \<le> c \<and> c \<le> hi) Nd_ranges"

text \<open>The ASCII digits \<open>0\<close> to \<open>9\<close>, the first run of the table.\<close>

definition ascii_digit :: "nat \<Rightarrow> bool" where
  "ascii_digit c = (0x30 \<le> c \<and> c \<le> 0x39)"

text \<open>\<open>re.sub(r'\D', '', s)\<close>: every character matching \<open>\D\<close> is replaced by nothing.\<close>

definition re_sub_D :: "str \<Rightarrow> str" where
  "re_sub_D s = filter is_decimal s"

definition startswith :: "str \<Rightarrow> str \<Rightarrow> bool" where
  "startswith s prefix = (take (length prefix) s = prefix)"

text \<open>\<open>sep.join(xs)\<close>.\<close>

fun join :: "str \<Rightarrow> str list \<Rightarrow> str" where
  "join sep [] = []"
| "join sep [x] = x"
| "join sep (x # y # ys) = x @ sep @ join sep (y # ys)"

section \<open>Exceptions and method results\<close>

text \<open>
  Both failures of the module are a \<open>ValueError\<close>; they differ in the message.
  A method of the source is a function from the state of the object it is called on to
  its result, a raised exception (\<open>Inl\<close>) or a returned value (\<open>Inr\<close>), and the state
  the call leaves behind.
\<close>

datatype error = ValueError str

definition invalid_msg :: "str \<Rightarrow> str" where
  "invalid_msg phone = lit ''Phone number '' @ phone @ lit '' is invalid''"

definition not_found_msg :: "str \<Rightarrow> str" where
  "not_found_msg old_phone = lit ''Phone number '' @ old_phone @ lit '' not found.''"

definition InvalidPhoneNumber :: "str \<Rightarrow> error" where
  "InvalidPhoneNumber phone = ValueError (invalid_msg phone)"

definition PhoneNotFound :: "str \<Rightarrow> error" where
  "PhoneNotFound old_phone = ValueError (not_found_msg old_phone)"

section \<open>Field, Name, Phone\<close>

datatype Field = Field (value_of: str)

type_synonym Name = Field
type_synonym Phone = Field

definition Field_str :: "Field \<Rightarrow> str" where
  "Field_str f = value_of f"

definition Name_init :: "str \<Rightarrow> Name" where
  "Name_init n = Field n"

definition Phone_init :: "str \<Rightarrow> error + Phone" where
  "Phone_init raw =
     (let phone = re_sub_D raw;
          phone = (if startswith phone (lit ''38'') then drop 2 phone else phone)
      in if length phone \<noteq> 10 then Inl (InvalidPhoneNumber phone)
         else Inr (Field phone))"

text \<open>
  The normalisation in the words of the specification: remove every character that is
  not a digit, keeping the order of the others; then, if the digits begin with \<open>38\<close>,
  drop those two.
\<close>

fun remove_non_digits :: "str \<Rightarrow> str" where
  "remove_non_digits [] = []"
| "remove_non_digits (c # cs) =
     (if is_decimal c then c # remove_non_digits cs else remove_non_digits cs)"

fun drop_prefix_38 :: "str \<Rightarrow> str" where
  "drop_prefix_38 (a # b # rest) = (if [a, b] = lit ''38'' then rest else a # b # rest)"
| "drop_prefix_38 s = s"

definition normalize :: "str \<Rightarrow> str" where
  "normalize raw = drop_prefix_38 (remove_non_digits raw)"

section \<open>Record\<close>

record Record =
  name :: Name
  phones :: "Phone list"

definition Record_init :: "str \<Rightarrow> Record" where
  "Record_init n = \<lparr>name = Name_init n, phones = []\<rparr>"

definition add_phone :: "str \<Rightarrow> Record \<Rightarrow> (error + unit) \<times> Record" where
  "add_phone phone self =
     (case Phone_init phone of
        Inl e \<Rightarrow> (Inl e, self)
      | Inr p \<Rightarrow> (Inr (), self\<lparr>phones := phones self @ [p]\<rparr>))"

definition remove_phone :: "str \<Rightarrow> Record \<Rightarrow> (error + unit) \<times> Record" where
  "remove_phone phone self =
     (Inr (), self\<lparr>phones := filter (\<lambda>p. value_of p \<noteq> phone) (phones self)\<rparr>)"

text \<open>
  The loop of \<open>edit_phone\<close>: at the first phone equal to \<open>old_phone\<close> it constructs
  \<open>Phone(new_phone)\<close>, binds it to the loop variable and returns; the list is not
  touched. Falling off the end of the loop raises.
\<close>

fun edit_phone_loop :: "Phone list \<Rightarrow> str \<Rightarrow> str \<Rightarrow> error + unit" where
  "edit_phone_loop [] old_phone new_phone = Inl (PhoneNotFound old_phone)"
| "edit_phone_loop (p # ps) old_phone new_phone =
     (if value_of p = old_phone
      then (case Phone_init new_phone of Inl e \<Rightarrow> Inl e | Inr p' \<Rightarrow> Inr ())
      else edit_phone_loop ps old_phone new_phone)"

definition edit_phone :: "str \<Rightarrow> str \<Rightarrow> Record \<Rightarrow> (error + unit) \<times> Record" where
  "edit_phone old_phone new_phone self =
     (edit_phone_loop (phones self) old_phone new_phone, self)"

definition find_phone :: "str \<Rightarrow> Record \<Rightarrow> (error + Phone option) \<times> Record" where
  "find_phone phone self = (Inr (List.find (\<lambda>p. value_of p = phone) (phones self)), self)"

definition Record_str :: "Record \<Rightarrow> str" where
  "Record_str self =
     lit ''Contact name: '' @ value_of (name self) @ lit '', phones: ''
       @ join (lit ''; '') (map value_of (phones self))"

section \<open>AddressBook\<close>

text \<open>
  Records are objects: the book's dictionary holds references to them, and \<open>find\<close>
  hands such a reference out. The store maps every reference to the state of the record
  it denotes. The dictionary \<open>data\<close> is the list of its items in insertion order, as
  \<open>dict\<close> keeps them: assigning to a key that is present keeps its place, a new key goes
  to the end, \<open>pop\<close> takes the item out.
\<close>

type_synonym ref = nat

record world =
  heap :: "ref \<Rightarrow> Record"
  data :: "(str \<times> ref) list"

text \<open>Calling a method of \<open>Record\<close> on the object behind a reference.\<close>

definition call :: "ref \<Rightarrow> (Record \<Rightarrow> (error + 'a) \<times> Record) \<Rightarrow> world \<Rightarrow> (error + 'a) \<times> world" where
  "call r m w = (case m (heap w r) of (res, self') \<Rightarrow> (res, w\<lparr>heap := (heap w)(r := self')\<rparr>))"

definition add_record :: "ref \<Rightarrow> world \<Rightarrow> (error + unit) \<times> world" where
  "add_record record w =
     (Inr (), w\<lparr>data := AList.update (value_of (name (heap w record))) record (data w)\<rparr>)"

definition find :: "str \<Rightarrow> world \<Rightarrow> (error + ref option) \<times> world" where
  "find n w = (Inr (map_of (data w) n), w)"

definition delete :: "str \<Rightarrow> world \<Rightarrow> (error + unit) \<times> world" where
  "delete n w = (Inr (), w\<lparr>data := AList.delete n (data w)\<rparr>)"

definition AddressBook_str :: "world \<Rightarrow> str" where
  "AddressBook_str w = join (lit ''\<newline>'') (map (\<lambda>(k, r). Record_str (heap w r)) (data w))"

section \<open>Invariants\<close>

text \<open>A dictionary has each key once.\<close>

definition dict_ok :: "world \<Rightarrow> bool" where
  "dict_ok w = distinct (map fst (data w))"

text \<open>
  A phone is valid when its value is ten decimal digits; \<open>ascii_phone\<close> asks for the
  digits \<open>0\<close> to \<open>9\<close>. A record is well formed when all its phones are valid, and a
  world when every record of the book is.
\<close>

definition valid_phone :: "Phone \<Rightarrow> bool" where
  "valid_phone p = (length (value_of p) = 10 \<and> list_all is_decimal (value_of p))"

definition ascii_phone :: "Phone \<Rightarrow> bool" where
  "ascii_phone p = (length (value_of p) = 10 \<and> list_all ascii_digit (value_of p))"

definition record_ok :: "Record \<Rightarrow> bool" where
  "record_ok r = list_all valid_phone (phones r)"

definition world_ok :: "world \<Rightarrow> bool" where
  "world_ok w = list_all (\<lambda>(k, r). record_ok (heap w r)) (data w)"

section \<open>The script\<close>

text \<open>
  The records and the book that the script at the end of the module builds: John with
  two phones behind reference 0, Jane with one behind reference 1, both added to the
  book. Every other reference holds a record without name and phones.
\<close>

definition john_record :: Record where
  "john_record = snd (add_phone (lit ''5555555555'')
     (snd (add_phone (lit ''+38123456-7890'') (Record_init (lit ''John'')))))"

definition jane_record :: Record where
  "jane_record = snd (add_phone (lit ''9876543210'') (Record_init (lit ''Jane'')))"

definition script_heap :: "ref \<Rightarrow> Record" where
  "script_heap = (\<lambda>r. Record_init [])(0 := john_record, 1 := jane_record)"

definition book :: world where
  "book = snd (add_record 1 (snd (add_record 0 \<lparr>heap = script_heap, data = []\<rparr>)))"

text \<open>The same book once a second record named John has been constructed, behind reference 2.\<close>

definition book_second_john :: world where
  "book_second_john = book\<lparr>heap := (heap book)(2 := Record_init (lit ''John''))\<rparr>"

text \<open>The Arabic-Indic digits one to nine and zero, U+0661 to U+0669 and U+0660.\<close>

definition arabic_indic :: str where
  "arabic_indic = [0x661, 0x662, 0x663, 0x664, 0x665, 0x666, 0x667, 0x668, 0x669, 0x660]"

section \<open>Phone construction\<close>

lemmas lit_eval = lit_def is_decimal_def Nd_ranges_def re_sub_D_def startswith_def

lemma remove_non_digits_filter: "remove_non_digits s = filter is_decimal s"
  by (induction s) simp_all

lemma drop_prefix_38_startswith:
  "drop_prefix_38 s = (if startswith s (lit ''38'') then drop 2 s else s)"
  by (cases s rule: drop_prefix_38.cases) (simp_all add: startswith_def lit_def)

lemma Phone_init_normalize:
  "Phone_init raw =
     (if length (normalize raw) = 10 then Inr (Field (normalize raw))
      else Inl (InvalidPhoneNumber (normalize raw)))"
  by (simp add: Phone_init_def normalize_def remove_non_digits_filter
      drop_prefix_38_startswith re_sub_D_def Let_def)

text \<open>
  C1. For every raw string, constructing a phone removes the characters that are not
  digits, keeping the order, drops a leading \<open>38\<close> of the digits whatever length that
  leaves, and succeeds with the result exactly when it has length 10; otherwise it
  fails with the invalid-phone error carrying the normalised string. The ten digits
  \<open>3812345678\<close> fail, cut down to eight; \<open>+38123456-7890\<close> succeeds as \<open>1234567890\<close>.
\<close>

theorem Phone_init_normalizes:
  "Phone_init raw =
     (if length (normalize raw) = 10 then Inr (Field (normalize raw))
      else Inl (InvalidPhoneNumber (normalize raw)))
   \<and> ((\<exists>p. Phone_init raw = Inr p) \<longleftrightarrow> length (normalize raw) = 10)
   \<and> Phone_init (lit ''3812345678'') = Inl (InvalidPhoneNumber (lit ''12345678''))
   \<and> Phone_init (lit ''+38123456-7890'') = Inr (Field (lit ''1234567890''))"
proof -
  have a: "Phone_init (lit ''3812345678'') = Inl (InvalidPhoneNumber (lit ''12345678''))"
    by (simp add: Phone_init_def lit_eval)
  have b: "Phone_init (lit ''+38123456-7890'') = Inr (Field (lit ''1234567890''))"
    by (simp add: Phone_init_def lit_eval)
  show ?thesis
    using a b by (simp add: Phone_init_normalize)
qed

theorem Phone_init_normalizes_witness:
  "normalize (lit ''(555) 555-55-55'') = lit ''5555555555''
   \<and> Phone_init (lit ''(555) 555-55-55'') = Inr (Field (lit ''5555555555''))"
proof -
  have n: "normalize (lit ''(555) 555-55-55'') = lit ''5555555555''"
    by (simp add: normalize_def lit_def is_decimal_def Nd_ranges_def)
  show ?thesis
    using Phone_init_normalizes [of "lit ''(555) 555-55-55''"] n by (simp add: lit_def)
qed

section \<open>Editing and removing phones\<close>

lemma Phone_init_plain [simp]:
  "Phone_init (lit ''5555555555'') = Inr (Field (lit ''5555555555''))"
  "Phone_init (lit ''1112223333'') = Inr (Field (lit ''1112223333''))"
  "Phone_init (lit ''9876543210'') = Inr (Field (lit ''9876543210''))"
  "Phone_init (lit ''+38123456-7890'') = Inr (Field (lit ''1234567890''))"
  by (simp_all add: Phone_init_def lit_eval)

lemma john_record_eq:
  "john_record = \<lparr>name = Field (lit ''John''),
      phones = [Field (lit ''1234567890''), Field (lit ''5555555555'')]\<rparr>"
  by (simp add: john_record_def add_phone_def Record_init_def Name_init_def)

text \<open>
  C2 asks that \<open>edit_phone(old, new)\<close>, when some phone equals \<open>old\<close> and \<open>new\<close> is
  valid, writes the new phone at the place of the first match, so that \<open>find_phone\<close>
  with the new value finds it. The script's own call shows what the method does instead:
  on John's record, \<open>edit_phone("1234567890", "1112223333")\<close> returns normally and leaves
  the record as it was, \<open>find_phone("1112223333")\<close> then returns \<open>None\<close>, and the record
  still prints with \<open>1234567890\<close>.
\<close>

theorem edit_phone_discards_replacement:
  "edit_phone (lit ''1234567890'') (lit ''1112223333'') john_record = (Inr (), john_record)
   \<and> fst (find_phone (lit ''1112223333'')
        (snd (edit_phone (lit ''1234567890'') (lit ''1112223333'') john_record))) = Inr None
   \<and> Record_str (snd (edit_phone (lit ''1234567890'') (lit ''1112223333'') john_record))
       = lit ''Contact name: John, phones: 1234567890; 5555555555''"
  by (simp add: john_record_eq edit_phone_def find_phone_def Record_str_def) (simp add: lit_def)

lemma msgs_differ: "not_found_msg a \<noteq> invalid_msg b"
proof
  assume "not_found_msg a = invalid_msg b"
  then have "last (not_found_msg a) = last (invalid_msg b)" by simp
  then show False by (simp add: not_found_msg_def invalid_msg_def lit_def)
qed

lemma edit_phone_loop_absent:
  "\<forall>p \<in> set ps. value_of p \<noteq> old \<Longrightarrow> edit_phone_loop ps old new = Inl (PhoneNotFound old)"
  by (induction ps) simp_all

lemma edit_phone_loop_present:
  "\<exists>p \<in> set ps. value_of p = old \<Longrightarrow>
     edit_phone_loop ps old new = (case Phone_init new of Inl e \<Rightarrow> Inl e | Inr p' \<Rightarrow> Inr ())"
  by (induction ps) auto

lemma edit_phone_no_effect:
  "\<exists>p \<in> set (phones r). value_of p = old \<Longrightarrow> Phone_init new = Inr p' \<Longrightarrow>
     edit_phone old new r = (Inr (), r)"
  by (simp add: edit_phone_def edit_phone_loop_present)

text \<open>
  C3. When no phone of the record equals \<open>old\<close>, \<open>edit_phone(old, new)\<close> fails with the
  not-found error, whatever \<open>new\<close> is, and leaves the record unchanged; the not-found
  error is never an invalid-phone error, so \<open>new\<close> has not been validated.
\<close>

theorem edit_phone_not_found:
  assumes "\<forall>p \<in> set (phones r). value_of p \<noteq> old"
  shows "edit_phone old new r = (Inl (PhoneNotFound old), r)
         \<and> PhoneNotFound old \<noteq> InvalidPhoneNumber x"
  using assms
  by (simp add: edit_phone_def edit_phone_loop_absent PhoneNotFound_def
      InvalidPhoneNumber_def msgs_differ)

theorem edit_phone_not_found_witness:
  "Phone_init (lit ''12'') = Inl (InvalidPhoneNumber (lit ''12''))
   \<and> edit_phone (lit ''0000000000'') (lit ''12'') john_record
        = (Inl (PhoneNotFound (lit ''0000000000'')), john_record)
   \<and> PhoneNotFound (lit ''0000000000'') \<noteq> InvalidPhoneNumber (lit ''12'')"
proof -
  have h: "\<forall>p \<in> set (phones john_record). value_of p \<noteq> lit ''0000000000''"
    by (simp add: john_record_eq lit_def)
  have i: "Phone_init (lit ''12'') = Inl (InvalidPhoneNumber (lit ''12''))"
    by (simp add: Phone_init_def lit_eval)
  show ?thesis
    using edit_phone_not_found [OF h, of "lit ''12''" "lit ''12''"] i by simp
qed

text \<open>
  C4. \<open>remove_phone(v)\<close> never raises; it keeps the name and keeps, in their order,
  exactly the phones whose value differs from \<open>v\<close>, so no phone equal to \<open>v\<close> remains;
  when no phone equals \<open>v\<close> the record is unchanged.
\<close>

theorem remove_phone_removes_all:
  "fst (remove_phone v r) = Inr ()
   \<and> name (snd (remove_phone v r)) = name r
   \<and> phones (snd (remove_phone v r)) = filter (\<lambda>p. value_of p \<noteq> v) (phones r)
   \<and> (\<forall>p \<in> set (phones (snd (remove_phone v r))). value_of p \<noteq> v)
   \<and> ((\<forall>p \<in> set (phones r). value_of p \<noteq> v) \<longrightarrow> snd (remove_phone v r) = r)"
proof -
  have "(\<forall>p \<in> set (phones r). value_of p \<noteq> v) \<Longrightarrow>
          filter (\<lambda>p. value_of p \<noteq> v) (phones r) = phones r"
    by (simp add: filter_id_conv)
  then show ?thesis by (auto simp: remove_phone_def)
qed

theorem remove_phone_removes_all_witness:
  "phones (snd (remove_phone (lit ''1234567890'') john_record)) = [Field (lit ''5555555555'')]
   \<and> snd (remove_phone (lit ''0000000000'') john_record) = john_record"
  using remove_phone_removes_all [of "lit ''1234567890''" john_record]
    remove_phone_removes_all [of "lit ''0000000000''" john_record]
  by (simp add: john_record_eq lit_def)

section \<open>Adding and deleting records\<close>

lemma jane_record_eq:
  "jane_record = \<lparr>name = Field (lit ''Jane''), phones = [Field (lit ''9876543210'')]\<rparr>"
  by (simp add: jane_record_def add_phone_def Record_init_def Name_init_def)

lemma John_neq_Jane [simp]: "lit ''John'' \<noteq> lit ''Jane''" "lit ''Jane'' \<noteq> lit ''John''"
  by (simp_all add: lit_def)

lemma book_eq:
  "book = \<lparr>heap = script_heap, data = [(lit ''John'', 0), (lit ''Jane'', 1)]\<rparr>"
  by (simp add: book_def add_record_def script_heap_def john_record_eq jane_record_eq)

lemma set_update_distinct:
  "distinct (map fst al) \<Longrightarrow>
     set (AList.update k v al) = {(k', v') \<in> set al. k' \<noteq> k} \<union> {(k, v)}"
  by (induction al) (auto simp: rev_image_eqI)

lemma set_update_subset: "set (AList.update k v al) \<subseteq> insert (k, v) (set al)"
  by (induction al) auto

text \<open>
  C5. \<open>add_record\<close> always succeeds and changes no record. Afterwards \<open>find\<close> with the
  record's name returns the added record and every other name is found as before; the
  items of the book are the old ones under other keys together with the new item, so
  nothing of an item previously under that key is kept, and a record that was stored
  under that key only is no longer among the values of the book.
\<close>

theorem add_record_overwrites:
  assumes "dict_ok w"
  shows "fst (add_record r w) = Inr ()
    \<and> heap (snd (add_record r w)) = heap w
    \<and> dict_ok (snd (add_record r w))
    \<and> fst (find (value_of (name (heap w r))) (snd (add_record r w))) = Inr (Some r)
    \<and> (\<forall>k. k \<noteq> value_of (name (heap w r)) \<longrightarrow>
          fst (find k (snd (add_record r w))) = fst (find k w))
    \<and> set (data (snd (add_record r w)))
        = {(k, v) \<in> set (data w). k \<noteq> value_of (name (heap w r))}
            \<union> {(value_of (name (heap w r)), r)}
    \<and> (\<forall>old. old \<noteq> r \<and> (\<forall>k. (k, old) \<in> set (data w) \<longrightarrow> k = value_of (name (heap w r)))
          \<longrightarrow> old \<notin> snd ` set (data (snd (add_record r w))))"
proof -
  let ?k = "value_of (name (heap w r))"
  have d: "distinct (map fst (data w))" using assms by (simp add: dict_ok_def)
  have s: "set (AList.update ?k r (data w)) = {(k, v) \<in> set (data w). k \<noteq> ?k} \<union> {(?k, r)}"
    by (rule set_update_distinct [OF d])
  have a: "dict_ok (snd (add_record r w))"
    using d by (simp add: dict_ok_def add_record_def distinct_update)
  have b: "fst (find ?k (snd (add_record r w))) = Inr (Some r)"
    by (simp add: find_def add_record_def update_conv')
  have c: "\<forall>k. k \<noteq> ?k \<longrightarrow> fst (find k (snd (add_record r w))) = fst (find k w)"
    by (simp add: find_def add_record_def update_conv')
  have e: "\<forall>old. old \<noteq> r \<and> (\<forall>k. (k, old) \<in> set (data w) \<longrightarrow> k = ?k)
          \<longrightarrow> old \<notin> snd ` set (data (snd (add_record r w)))"
    using s by (auto simp: add_record_def)
  have f: "set (data (snd (add_record r w))) = {(k, v) \<in> set (data w). k \<noteq> ?k} \<union> {(?k, r)}"
    using s by (simp add: add_record_def)
  have g: "fst (add_record r w) = Inr ()" "heap (snd (add_record r w)) = heap w"
    by (simp_all add: add_record_def)
  from a b c e f g show ?thesis by blast
qed

lemma script_heap_simps [simp]:
  "script_heap 0 = john_record" "script_heap (Suc 0) = jane_record"
  "script_heap 2 = Record_init []"
  by (simp_all add: script_heap_def)

theorem add_record_overwrites_witness:
  "dict_ok book_second_john
   \<and> fst (find (lit ''John'') book_second_john) = Inr (Some 0)
   \<and> data (snd (add_record 2 book_second_john)) = [(lit ''John'', 2), (lit ''Jane'', 1)]
   \<and> fst (find (lit ''John'') (snd (add_record 2 book_second_john))) = Inr (Some 2)
   \<and> 0 \<notin> snd ` set (data (snd (add_record 2 book_second_john)))"
proof -
  have h: "dict_ok book_second_john"
    by (simp add: dict_ok_def book_second_john_def book_eq)
  have n: "value_of (name (heap book_second_john 2)) = lit ''John''"
    by (simp add: book_second_john_def Record_init_def Name_init_def)
  have o: "fst (find (lit ''John'') book_second_john) = Inr (Some 0)"
    by (simp add: find_def book_second_john_def book_eq)
  have d: "data (snd (add_record 2 book_second_john)) = [(lit ''John'', 2), (lit ''Jane'', 1)]"
    by (simp add: add_record_def n) (simp add: book_second_john_def book_eq)
  have e: "0 \<notin> snd ` set (data (snd (add_record 2 book_second_john)))"
    by (simp add: d)
  from add_record_overwrites [OF h, of 2]
  have f: "fst (find (lit ''John'') (snd (add_record 2 book_second_john))) = Inr (Some 2)"
    by (simp add: n)
  from h o d e f show ?thesis by (intro conjI)
qed

lemma delete_filter: "AList.delete n al = filter (\<lambda>(k, r). k \<noteq> n) al"
  by (induction al) auto

text \<open>
  C6. \<open>delete(name)\<close> never fails and changes no record. Afterwards the name is not a
  key, \<open>find\<close> with it returns \<open>None\<close>, every other name is found as before, and the
  book renders as the remaining items do, in their order; when the name was absent the
  book is unchanged.
\<close>

theorem delete_removes_entry:
  "fst (delete n w) = Inr ()
   \<and> heap (snd (delete n w)) = heap w
   \<and> fst (find n (snd (delete n w))) = Inr None
   \<and> n \<notin> fst ` set (data (snd (delete n w)))
   \<and> (\<forall>k. k \<noteq> n \<longrightarrow> fst (find k (snd (delete n w))) = fst (find k w))
   \<and> data (snd (delete n w)) = filter (\<lambda>(k, r). k \<noteq> n) (data w)
   \<and> AddressBook_str (snd (delete n w))
       = join (lit ''\<newline>'')
           (map (\<lambda>(k, r). Record_str (heap w r)) (filter (\<lambda>(k, r). k \<noteq> n) (data w)))
   \<and> (fst (find n w) = Inr None \<longrightarrow> snd (delete n w) = w)"
proof -
  have a: "fst (find n (snd (delete n w))) = Inr None"
    by (simp add: find_def delete_def delete_conv')
  have b: "n \<notin> fst ` set (data (snd (delete n w)))"
    by (simp add: delete_def delete_notin_dom)
  have c: "\<forall>k. k \<noteq> n \<longrightarrow> fst (find k (snd (delete n w))) = fst (find k w)"
    by (simp add: find_def delete_def)
  have d: "data (snd (delete n w)) = filter (\<lambda>(k, r). k \<noteq> n) (data w)"
    by (simp add: delete_def delete_filter)
  have e: "AddressBook_str (snd (delete n w))
       = join (lit ''\<newline>'')
           (map (\<lambda>(k, r). Record_str (heap w r)) (filter (\<lambda>(k, r). k \<noteq> n) (data w)))"
    by (simp add: AddressBook_str_def d) (simp add: delete_def)
  have f: "fst (find n w) = Inr None \<longrightarrow> snd (delete n w) = w"
    by (simp add: find_def delete_def map_of_eq_None_iff)
  have g: "fst (delete n w) = Inr ()" "heap (snd (delete n w)) = heap w"
    by (simp_all add: delete_def)
  from a b c d e f g show ?thesis by blast
qed

theorem delete_removes_entry_witness:
  "fst (find (lit ''Jane'') book) = Inr (Some 1)
   \<and> fst (find (lit ''Jane'') (snd (delete (lit ''Jane'') book))) = Inr None
   \<and> AddressBook_str (snd (delete (lit ''Jane'') book))
       = lit ''Contact name: John, phones: 1234567890; 5555555555''
   \<and> fst (find (lit ''Bob'') book) = Inr None
   \<and> snd (delete (lit ''Bob'') book) = book"
proof -
  have a: "fst (find (lit ''Jane'') book) = Inr (Some 1)"
    by (simp add: find_def book_eq)
  have b: "fst (find (lit ''Bob'') book) = Inr None"
    by (simp add: find_def book_eq) (simp add: lit_def)
  have c: "join (lit ''\<newline>'') (map (\<lambda>(k, r). Record_str (heap book r))
              (filter (\<lambda>(k, r). k \<noteq> lit ''Jane'') (data book)))
           = lit ''Contact name: John, phones: 1234567890; 5555555555''"
    by (simp add: book_eq Record_str_def john_record_eq) (simp add: lit_def)
  show ?thesis
    using delete_removes_entry [of "lit ''Jane''" book]
      delete_removes_entry [of "lit ''Bob''" book] a b c
    by simp
qed

lemma call_failure:
  "fst (m (heap w r)) = Inl e \<longrightarrow> snd (m (heap w r)) = heap w r \<Longrightarrow>
   fst (call r m w) = Inl e \<longrightarrow> snd (call r m w) = w"
  by (cases "m (heap w r)") (auto simp: call_def)

lemma add_phone_failure: "fst (add_phone raw r) = Inl e \<longrightarrow> snd (add_phone raw r) = r"
  by (simp add: add_phone_def split: sum.splits)

lemma edit_phone_same: "snd (edit_phone old new r) = r"
  by (simp add: edit_phone_def)

text \<open>
  C7. An operation that fails leaves the state as it was: \<open>add_phone\<close> and
  \<open>edit_phone\<close>, on a record and through a reference into the book, are the only
  operations that can fail, and the state after a failure is the state before the call.
  In particular \<open>add_phone\<close> of a string that does not normalise to ten digits fails
  with the invalid-phone error and the record is unchanged.
\<close>

theorem failure_leaves_state_unchanged:
  "(fst (add_phone raw r) = Inl e \<longrightarrow> snd (add_phone raw r) = r)
   \<and> (fst (edit_phone old new r) = Inl e \<longrightarrow> snd (edit_phone old new r) = r)
   \<and> (fst (call ref (add_phone raw) w) = Inl e \<longrightarrow> snd (call ref (add_phone raw) w) = w)
   \<and> (fst (call ref (edit_phone old new) w) = Inl e \<longrightarrow>
        snd (call ref (edit_phone old new) w) = w)
   \<and> fst (remove_phone v r) \<noteq> Inl e \<and> fst (find_phone v r) \<noteq> Inl e
   \<and> fst (add_record ref w) \<noteq> Inl e \<and> fst (find n w) \<noteq> Inl e \<and> fst (delete n w) \<noteq> Inl e
   \<and> (length (normalize raw) \<noteq> 10 \<longrightarrow>
        add_phone raw r = (Inl (InvalidPhoneNumber (normalize raw)), r))"
proof -
  have a: "fst (call ref (add_phone raw) w) = Inl e \<longrightarrow> snd (call ref (add_phone raw) w) = w"
    by (rule call_failure) (rule add_phone_failure)
  have b: "fst (call ref (edit_phone old new) w) = Inl e \<longrightarrow>
        snd (call ref (edit_phone old new) w) = w"
    by (rule call_failure) (simp add: edit_phone_same)
  have c: "fst (remove_phone v r) \<noteq> Inl e" "fst (find_phone v r) \<noteq> Inl e"
    "fst (add_record ref w) \<noteq> Inl e" "fst (find n w) \<noteq> Inl e" "fst (delete n w) \<noteq> Inl e"
    by (simp_all add: remove_phone_def find_phone_def add_record_def find_def delete_def)
  have d: "length (normalize raw) \<noteq> 10 \<longrightarrow>
        add_phone raw r = (Inl (InvalidPhoneNumber (normalize raw)), r)"
    by (simp add: add_phone_def Phone_init_normalize)
  from a b c d add_phone_failure [of raw r e] edit_phone_same [of old new r]
  show ?thesis by simp
qed

theorem failure_leaves_state_unchanged_witness:
  "length (normalize (lit ''3812345678'')) = 8
   \<and> add_phone (lit ''3812345678'') john_record
       = (Inl (InvalidPhoneNumber (lit ''12345678'')), john_record)
   \<and> fst (call 0 (add_phone (lit ''3812345678'')) book)
       = Inl (InvalidPhoneNumber (lit ''12345678''))
   \<and> snd (call 0 (add_phone (lit ''3812345678'')) book) = book
   \<and> fst (edit_phone (lit ''1234567890'') (lit ''3812345678'') john_record)
       = Inl (InvalidPhoneNumber (lit ''12345678''))
   \<and> snd (edit_phone (lit ''1234567890'') (lit ''3812345678'') john_record) = john_record
   \<and> fst (call 0 (edit_phone (lit ''0000000000'') (lit ''1112223333'')) book)
       = Inl (PhoneNotFound (lit ''0000000000''))
   \<and> snd (call 0 (edit_phone (lit ''0000000000'') (lit ''1112223333'')) book) = book"
proof -
  note atomic = failure_leaves_state_unchanged
    [where raw = "lit ''3812345678''" and r = john_record and w = book and ref = 0]
  have n: "normalize (lit ''3812345678'') = lit ''12345678''"
    by (simp add: normalize_def lit_def is_decimal_def Nd_ranges_def)
  have l: "length (normalize (lit ''3812345678'')) = 8"
    by (simp add: n) (simp add: lit_def)
  have i: "Phone_init (lit ''3812345678'') = Inl (InvalidPhoneNumber (lit ''12345678''))"
    by (simp add: Phone_init_def lit_eval)
  from atomic have a: "add_phone (lit ''3812345678'') john_record
       = (Inl (InvalidPhoneNumber (lit ''12345678'')), john_record)"
    by (simp add: l) (simp add: n)
  have b: "fst (call 0 (add_phone (lit ''3812345678'')) book)
       = Inl (InvalidPhoneNumber (lit ''12345678''))"
    by (simp add: call_def book_eq a)
  from atomic [where e = "InvalidPhoneNumber (lit ''12345678'')"] b
  have c: "snd (call 0 (add_phone (lit ''3812345678'')) book) = book"
    by simp
  have d: "fst (edit_phone (lit ''1234567890'') (lit ''3812345678'') john_record)
       = Inl (InvalidPhoneNumber (lit ''12345678''))"
    by (simp add: edit_phone_def john_record_eq i)
  from atomic [where e = "InvalidPhoneNumber (lit ''12345678'')"
      and old = "lit ''1234567890''" and new = "lit ''3812345678''"] d
  have e: "snd (edit_phone (lit ''1234567890'') (lit ''3812345678'') john_record) = john_record"
    by simp
  have f: "fst (call 0 (edit_phone (lit ''0000000000'') (lit ''1112223333'')) book)
       = Inl (PhoneNotFound (lit ''0000000000''))"
    by (simp add: call_def book_eq edit_phone_def john_record_eq) (simp add: lit_def)
  from atomic [where e = "PhoneNotFound (lit ''0000000000'')"
      and old = "lit ''0000000000''" and new = "lit ''1112223333''"] f
  have g: "snd (call 0 (edit_phone (lit ''0000000000'') (lit ''1112223333'')) book) = book"
    by simp
  from l a b c d e f g show ?thesis by (intro conjI)
qed

lemma Phone_init_valid: "Phone_init raw = Inr p \<Longrightarrow> valid_phone p"
proof -
  assume a: "Phone_init raw = Inr p"
  have d: "list_all is_decimal (normalize raw)"
  proof -
    have "set (drop_prefix_38 s) \<subseteq> set s" for s
      by (cases s rule: drop_prefix_38.cases) auto
    then have "set (normalize raw) \<subseteq> set (filter is_decimal raw)"
      unfolding normalize_def remove_non_digits_filter .
    then show ?thesis by (auto simp: list_all_iff)
  qed
  from a have "length (normalize raw) = 10" "p = Field (normalize raw)"
    by (simp_all add: Phone_init_normalize split: if_splits)
  with d show ?thesis by (simp add: valid_phone_def)
qed

lemma is_decimal_ascii: "is_decimal c \<Longrightarrow> c < 128 \<Longrightarrow> ascii_digit c"
  by (simp add: is_decimal_def Nd_ranges_def ascii_digit_def)

lemma Phone_init_ascii:
  assumes "Phone_init raw = Inr p" "list_all (\<lambda>c. c < 128) raw"
  shows "ascii_phone p"
proof -
  have "set (drop_prefix_38 s) \<subseteq> set s" for s
    by (cases s rule: drop_prefix_38.cases) auto
  then have "set (normalize raw) \<subseteq> set (filter is_decimal raw)"
    unfolding normalize_def remove_non_digits_filter .
  with assms(2) have "list_all ascii_digit (normalize raw)"
    by (auto simp: list_all_iff is_decimal_ascii)
  moreover from assms(1) have "length (normalize raw) = 10" "p = Field (normalize raw)"
    by (simp_all add: Phone_init_normalize split: if_splits)
  ultimately show ?thesis by (simp add: ascii_phone_def)
qed

lemma add_phone_ok: "record_ok r \<Longrightarrow> record_ok (snd (add_phone raw r))"
  by (cases "Phone_init raw") (simp_all add: add_phone_def record_ok_def Phone_init_valid)

lemma remove_phone_ok: "record_ok r \<Longrightarrow> record_ok (snd (remove_phone v r))"
  by (simp add: remove_phone_def record_ok_def list_all_iff)

lemma call_ok:
  assumes w: "world_ok w"
    and m: "record_ok (heap w r) \<Longrightarrow> record_ok (snd (m (heap w r)))"
  shows "world_ok (snd (call r m w))"
proof (cases "m (heap w r)")
  case (Pair res self')
  have other: "record_ok (heap w r')" if "(k, r') \<in> set (data w)" for k r'
    using that w by (auto simp: world_ok_def list_all_iff)
  have same: "record_ok self'" if "(k, r) \<in> set (data w)" for k
    using other [OF that] m Pair by simp
  have "\<forall>(k, r') \<in> set (data w). record_ok (((heap w)(r := self')) r')"
    using other same by auto
  then show ?thesis
    using Pair by (simp add: call_def world_ok_def list_all_iff)
qed

lemma add_record_ok:
  assumes "world_ok w" "record_ok (heap w r)"
  shows "world_ok (snd (add_record r w))"
  using assms set_update_subset [of "value_of (name (heap w r))" r "data w"]
  by (auto simp: add_record_def world_ok_def list_all_iff)

lemma delete_ok: "world_ok w \<Longrightarrow> world_ok (snd (delete k w))"
  by (auto simp: delete_def delete_filter world_ok_def list_all_iff)

text \<open>
  C8, as stated: every phone reachable from a record is a string of ten ASCII digits.
  The Arabic-Indic digits are decimal digits for \<open>\D\<close>, so \<open>add_phone\<close> accepts ten of
  them on a fresh record and stores a phone that holds no ASCII digit.
\<close>

theorem phones_ten_ascii_digits_counterexample:
  "list_all ascii_phone (phones (Record_init (lit ''John'')))
   \<and> fst (add_phone arabic_indic (Record_init (lit ''John''))) = Inr ()
   \<and> phones (snd (add_phone arabic_indic (Record_init (lit ''John'')))) = [Field arabic_indic]
   \<and> \<not> list_all ascii_phone (phones (snd (add_phone arabic_indic (Record_init (lit ''John'')))))"
proof -
  have "Phone_init arabic_indic = Inr (Field arabic_indic)"
    by (simp add: Phone_init_def arabic_indic_def lit_eval)
  then show ?thesis
    by (simp add: add_phone_def Record_init_def)
      (simp add: ascii_phone_def ascii_digit_def arabic_indic_def)
qed

text \<open>
  C8, amended: every phone reachable from a record or the book is a string of exactly
  ten decimal digits, in the sense of the pattern \<open>\d\<close>. A constructed phone is such a
  string, and a string of ten ASCII digits when the raw string holds ASCII characters
  only; a new record satisfies the invariant, and \<open>add_phone\<close>, \<open>remove_phone\<close>,
  \<open>edit_phone\<close> (on a record and through a reference into the book), \<open>delete\<close> and
  \<open>add_record\<close> of a record that satisfies it preserve it. Duplicates are permitted:
  adding a phone that the record already holds appends it again.
\<close>

theorem phones_ten_decimal_digits_invariant:
  "record_ok (Record_init n)
   \<and> (Phone_init raw = Inr p \<longrightarrow> valid_phone p)
   \<and> (Phone_init raw = Inr p \<and> list_all (\<lambda>c. c < 128) raw \<longrightarrow> ascii_phone p)
   \<and> (record_ok r \<longrightarrow> record_ok (snd (add_phone raw r)) \<and> record_ok (snd (remove_phone v r))
          \<and> record_ok (snd (edit_phone old new r)))
   \<and> (world_ok w \<longrightarrow> world_ok (snd (call ref (add_phone raw) w))
          \<and> world_ok (snd (call ref (remove_phone v) w))
          \<and> world_ok (snd (call ref (edit_phone old new) w))
          \<and> world_ok (snd (delete k w)))
   \<and> (world_ok w \<and> record_ok (heap w ref) \<longrightarrow> world_ok (snd (add_record ref w)))
   \<and> (Phone_init raw = Inr p \<and> p \<in> set (phones r) \<longrightarrow>
          phones (snd (add_phone raw r)) = phones r @ [p]
          \<and> \<not> distinct (phones (snd (add_phone raw r))))"
proof -
  have a: "record_ok (Record_init n)"
    by (simp add: record_ok_def Record_init_def)
  have b: "world_ok w \<longrightarrow> world_ok (snd (call ref (add_phone raw) w))"
    by (simp add: call_ok add_phone_ok)
  have c: "world_ok w \<longrightarrow> world_ok (snd (call ref (remove_phone v) w))"
    by (simp add: call_ok remove_phone_ok)
  have d: "world_ok w \<longrightarrow> world_ok (snd (call ref (edit_phone old new) w))"
    by (simp add: call_ok edit_phone_same)
  have e: "Phone_init raw = Inr p \<and> p \<in> set (phones r) \<longrightarrow>
          phones (snd (add_phone raw r)) = phones r @ [p]
          \<and> \<not> distinct (phones (snd (add_phone raw r)))"
    by (simp add: add_phone_def)
  have f: "Phone_init raw = Inr p \<and> list_all (\<lambda>c. c < 128) raw \<longrightarrow> ascii_phone p"
    by (auto intro: Phone_init_ascii)
  from a b c d e f show ?thesis
    by (simp add: Phone_init_valid add_phone_ok remove_phone_ok edit_phone_same
        add_record_ok delete_ok)
qed

lemma valid_script_phones:
  "valid_phone (Field (lit ''1234567890''))" "valid_phone (Field (lit ''5555555555''))"
  "valid_phone (Field (lit ''9876543210''))"
  by (simp_all add: valid_phone_def lit_def is_decimal_def Nd_ranges_def)

lemma world_ok_book: "world_ok book"
  by (simp add: world_ok_def book_eq record_ok_def john_record_eq jane_record_eq
      valid_script_phones)

theorem phones_ten_decimal_digits_invariant_witness:
  "world_ok book \<and> record_ok john_record \<and> record_ok (heap book 1)
   \<and> world_ok (snd (call 0 (add_phone (lit ''5555555555'')) book))
   \<and> world_ok (snd (add_record 1 book))
   \<and> record_ok (snd (remove_phone (lit ''5555555555'') john_record))
   \<and> Phone_init (lit ''5555555555'') = Inr (Field (lit ''5555555555''))
   \<and> list_all (\<lambda>c. c < 128) (lit ''5555555555'')
   \<and> ascii_phone (Field (lit ''5555555555''))
   \<and> Field (lit ''5555555555'') \<in> set (phones john_record)
   \<and> phones (snd (add_phone (lit ''5555555555'') john_record))
       = [Field (lit ''1234567890''), Field (lit ''5555555555''), Field (lit ''5555555555'')]
   \<and> \<not> distinct (phones (snd (add_phone (lit ''5555555555'') john_record)))"
proof -
  note inv = phones_ten_decimal_digits_invariant
    [where w = book and raw = "lit ''5555555555''" and r = john_record
       and p = "Field (lit ''5555555555'')" and v = "lit ''5555555555''"]
  have m: "Field (lit ''5555555555'') \<in> set (phones john_record)"
    by (simp add: john_record_eq)
  have j: "record_ok john_record" "record_ok (heap book 1)"
    by (simp_all add: record_ok_def john_record_eq jane_record_eq book_eq valid_script_phones)
  have l: "list_all (\<lambda>c. c < 128) (lit ''5555555555'')"
    by (simp add: lit_def)
  from inv [where ref = 0] world_ok_book
  have a: "world_ok (snd (call 0 (add_phone (lit ''5555555555'')) book))"
    by blast
  from inv [where ref = 1] world_ok_book j(2)
  have a': "world_ok (snd (add_record 1 book))"
    by blast
  from inv [where ref = 0] j(1)
  have r: "record_ok (snd (remove_phone (lit ''5555555555'') john_record))"
    by blast
  from inv [where ref = 0] l
  have k: "ascii_phone (Field (lit ''5555555555''))"
    by simp
  from inv [where ref = 0] m
  have b: "phones (snd (add_phone (lit ''5555555555'') john_record))
            = phones john_record @ [Field (lit ''5555555555'')]"
    "\<not> distinct (phones (snd (add_phone (lit ''5555555555'') john_record)))"
    by simp_all
  from b(1) have c: "phones (snd (add_phone (lit ''5555555555'') john_record))
       = [Field (lit ''1234567890''), Field (lit ''5555555555''), Field (lit ''5555555555'')]"
    by (simp add: john_record_eq)
  from world_ok_book j a a' r l k m b(2) c show ?thesis by simp
qed

lemma map_cong_set: "(\<And>x. x \<in> set xs \<Longrightarrow> f x = g x) \<Longrightarrow> map f xs = map g xs"
  by simp

text \<open>
  C9. \<open>find\<close> changes nothing; for a name that is not a key it returns \<open>None\<close>, for a
  key it returns the reference stored under it. A successful \<open>add_phone\<close> through the
  returned reference changes the record behind it and nothing else: \<open>find\<close> still
  returns the same reference, the store holds the record with the phone appended, and
  the book renders with that record's new phones.
\<close>

theorem find_returns_live_reference:
  "snd (find n w) = w
   \<and> (n \<notin> fst ` set (data w) \<longrightarrow> fst (find n w) = Inr None)
   \<and> (n \<in> fst ` set (data w) \<longrightarrow> (\<exists>r. fst (find n w) = Inr (Some r) \<and> (n, r) \<in> set (data w)))
   \<and> (fst (find n w) = Inr (Some r) \<and> Phone_init raw = Inr p \<longrightarrow>
        fst (call r (add_phone raw) w) = Inr ()
        \<and> data (snd (call r (add_phone raw) w)) = data w
        \<and> fst (find n (snd (call r (add_phone raw) w))) = Inr (Some r)
        \<and> heap (snd (call r (add_phone raw) w))
            = (heap w)(r := (heap w r)\<lparr>phones := phones (heap w r) @ [p]\<rparr>)
        \<and> AddressBook_str (snd (call r (add_phone raw) w))
            = join (lit ''\<newline>'')
                (map (\<lambda>(k, r'). Record_str
                        (if r' = r then (heap w r)\<lparr>phones := phones (heap w r) @ [p]\<rparr>
                         else heap w r'))
                   (data w)))"
proof -
  have a: "n \<notin> fst ` set (data w) \<longrightarrow> fst (find n w) = Inr None"
    by (simp add: find_def map_of_eq_None_iff)
  have b: "n \<in> fst ` set (data w) \<longrightarrow>
      (\<exists>r. fst (find n w) = Inr (Some r) \<and> (n, r) \<in> set (data w))"
  proof
    assume "n \<in> fst ` set (data w)"
    then obtain r where "map_of (data w) n = Some r"
      by (metis map_of_eq_None_iff not_Some_eq)
    then show "\<exists>r. fst (find n w) = Inr (Some r) \<and> (n, r) \<in> set (data w)"
      by (auto simp: find_def dest: map_of_SomeD)
  qed
  have c: "fst (find n w) = Inr (Some r) \<and> Phone_init raw = Inr p \<longrightarrow>
        fst (call r (add_phone raw) w) = Inr ()
        \<and> data (snd (call r (add_phone raw) w)) = data w
        \<and> fst (find n (snd (call r (add_phone raw) w))) = Inr (Some r)
        \<and> heap (snd (call r (add_phone raw) w))
            = (heap w)(r := (heap w r)\<lparr>phones := phones (heap w r) @ [p]\<rparr>)"
    by (simp add: call_def add_phone_def find_def)
  have d: "Phone_init raw = Inr p \<longrightarrow>
        AddressBook_str (snd (call r (add_phone raw) w))
            = join (lit ''\<newline>'')
                (map (\<lambda>(k, r'). Record_str
                        (if r' = r then (heap w r)\<lparr>phones := phones (heap w r) @ [p]\<rparr>
                         else heap w r'))
                   (data w))"
  proof
    assume p: "Phone_init raw = Inr p"
    have "map (\<lambda>(k, r'). Record_str (heap (snd (call r (add_phone raw) w)) r')) (data w)
          = map (\<lambda>(k, r'). Record_str
                        (if r' = r then (heap w r)\<lparr>phones := phones (heap w r) @ [p]\<rparr>
                         else heap w r')) (data w)"
      by (rule map_cong_set) (auto simp: call_def add_phone_def p)
    then show "AddressBook_str (snd (call r (add_phone raw) w))
            = join (lit ''\<newline>'')
                (map (\<lambda>(k, r'). Record_str
                        (if r' = r then (heap w r)\<lparr>phones := phones (heap w r) @ [p]\<rparr>
                         else heap w r'))
                   (data w))"
      by (simp add: AddressBook_str_def) (simp add: call_def add_phone_def p)
  qed
  have e: "snd (find n w) = w" by (simp add: find_def)
  from a b c d e show ?thesis by blast
qed

theorem find_returns_live_reference_witness:
  "fst (find (lit ''Jane'') book) = Inr (Some 1)
   \<and> Phone_init (lit ''1112223333'') = Inr (Field (lit ''1112223333''))
   \<and> fst (find (lit ''Jane'') (snd (call 1 (add_phone (lit ''1112223333'')) book))) = Inr (Some 1)
   \<and> phones (heap (snd (call 1 (add_phone (lit ''1112223333'')) book)) 1)
       = [Field (lit ''9876543210''), Field (lit ''1112223333'')]
   \<and> AddressBook_str book
       = lit ''Contact name: John, phones: 1234567890; 5555555555''
         @ lit ''\<newline>'' @ lit ''Contact name: Jane, phones: 9876543210''
   \<and> AddressBook_str (snd (call 1 (add_phone (lit ''1112223333'')) book))
       = lit ''Contact name: John, phones: 1234567890; 5555555555''
         @ lit ''\<newline>'' @ lit ''Contact name: Jane, phones: 9876543210; 1112223333''
   \<and> fst (find (lit ''Bob'') book) = Inr None"
proof -
  note live = find_returns_live_reference
    [where n = "lit ''Jane''" and w = book and r = 1 and raw = "lit ''1112223333''"
       and p = "Field (lit ''1112223333'')"]
  have a: "fst (find (lit ''Jane'') book) = Inr (Some 1)"
    by (simp add: find_def book_eq)
  from live a
  have b: "fst (find (lit ''Jane'') (snd (call 1 (add_phone (lit ''1112223333'')) book)))
            = Inr (Some 1)"
    and c: "heap (snd (call 1 (add_phone (lit ''1112223333'')) book))
            = (heap book)(1 := (heap book 1)\<lparr>phones := phones (heap book 1) @ [Field (lit ''1112223333'')]\<rparr>)"
    and d: "AddressBook_str (snd (call 1 (add_phone (lit ''1112223333'')) book))
            = join (lit ''\<newline>'')
                (map (\<lambda>(k, r'). Record_str
                        (if r' = 1 then (heap book 1)\<lparr>phones := phones (heap book 1) @ [Field (lit ''1112223333'')]\<rparr>
                         else heap book r'))
                   (data book))"
    by simp_all
  have e: "phones (heap (snd (call 1 (add_phone (lit ''1112223333'')) book)) 1)
       = [Field (lit ''9876543210''), Field (lit ''1112223333'')]"
    using c by (simp add: book_eq jane_record_eq)
  have f: "AddressBook_str (snd (call 1 (add_phone (lit ''1112223333'')) book))
       = lit ''Contact name: John, phones: 1234567890; 5555555555''
         @ lit ''\<newline>'' @ lit ''Contact name: Jane, phones: 9876543210; 1112223333''"
    using d by (simp add: book_eq jane_record_eq john_record_eq Record_str_def lit_def)
  have g: "AddressBook_str book
       = lit ''Contact name: John, phones: 1234567890; 5555555555''
         @ lit ''\<newline>'' @ lit ''Contact name: Jane, phones: 9876543210''"
    by (simp add: AddressBook_str_def book_eq jane_record_eq john_record_eq Record_str_def lit_def)
  from live have h: "fst (find (lit ''Bob'') book) = Inr None"
    by (simp add: find_def book_eq) (simp add: lit_def)
  from a b e f g h show ?thesis by simp
qed

section \<open>Names\<close>

text \<open>
  C10, as stated: every name created by constructing a record wraps a non-empty string.
  The constructor checks nothing: \<open>Record("")\<close> yields a record whose name wraps the
  empty string.
\<close>

theorem Record_init_empty_name_counterexample:
  "value_of (name (Record_init (lit ''''))) = []"
  by (simp add: Record_init_def Name_init_def lit_def)

text \<open>
  C10, amended: constructing a record from a string always succeeds, with that string
  unchanged as the wrapped name and with no phones; the name is non-empty exactly when
  the string given to the constructor is.
\<close>

theorem Record_init_stores_name:
  "value_of (name (Record_init n)) = n \<and> phones (Record_init n) = []
   \<and> (value_of (name (Record_init n)) \<noteq> [] \<longleftrightarrow> n \<noteq> [])"
  by (simp add: Record_init_def Name_init_def)

end
